theory Spec2Isabelle
  imports Main
begin

section \<open>Values, records and strings\<close>

text \<open>
  The mapper of \<^verbatim>\<open>Mappers/customer_mapper.py\<close> receives a list of Python dictionaries. A value of
  such a dictionary is a string, \<^verbatim>\<open>None\<close> (the sample data of the module has
  \<^verbatim>\<open>"Phone 2": None\<close>, and \<^verbatim>\<open>csv.DictReader\<close> fills the missing fields of a short row with
  \<^verbatim>\<open>None\<close>) or an integer (the driver replaces \<^verbatim>\<open>row['Index']\<close> by an integer). A character is
  a code point below 256.
\<close>

datatype pyval = PNone | PStr string | PInt int

type_synonym customer_dict = "string \<rightharpoonup> pyval"

text \<open>The exceptions that can leave the mapper: a \<^verbatim>\<open>TypeError\<close> of \<^verbatim>\<open>str.join\<close> or of the
  serializer on a value that is not a string, and the \<^verbatim>\<open>ExpatError\<close> of \<^verbatim>\<open>minidom.parseString\<close>.\<close>

datatype error = TypeError | ExpatError

text \<open>Python's truth value of a dictionary value: \<^verbatim>\<open>if customer_dict.get(...)\<close>.\<close>

fun truthy :: "pyval \<Rightarrow> bool" where
  "truthy PNone = False"
| "truthy (PStr s) = (s \<noteq> [])"
| "truthy (PInt n) = (n \<noteq> 0)"

fun is_str :: "pyval \<Rightarrow> bool" where
  "is_str (PStr s) = True"
| "is_str v = False"

fun str_of :: "pyval \<Rightarrow> string" where
  "str_of (PStr s) = s"
| "str_of v = []"

text \<open>\<^verbatim>\<open>d.get(k)\<close> is \<^verbatim>\<open>None\<close> for an absent key, \<^verbatim>\<open>d.get(k, dflt)\<close> is \<^verbatim>\<open>dflt\<close>; a key that is
  present gives its value, whatever the value is.\<close>

definition get :: "customer_dict \<Rightarrow> string \<Rightarrow> pyval" where
  "get d k = (case d k of None \<Rightarrow> PNone | Some v \<Rightarrow> v)"

definition get_default :: "customer_dict \<Rightarrow> string \<Rightarrow> pyval \<Rightarrow> pyval" where
  "get_default d k dflt = (case d k of None \<Rightarrow> dflt | Some v \<Rightarrow> v)"

text \<open>\<^verbatim>\<open>str(n)\<close> of an integer: its decimal digits, with a minus sign when negative.\<close>

definition digit_char :: "nat \<Rightarrow> char" where
  "digit_char n = char_of (48 + n)"

fun digits10 :: "nat \<Rightarrow> string" where
  "digits10 n = (if n < 10 then [digit_char n] else digits10 (n div 10) @ [digit_char (n mod 10)])"

declare digits10.simps [simp del]

definition str_int :: "int \<Rightarrow> string" where
  "str_int i = (if i < 0 then CHR ''-'' # digits10 (nat (- i)) else digits10 (nat i))"

fun py_str :: "pyval \<Rightarrow> string" where
  "py_str PNone = ''None''"
| "py_str (PStr s) = s"
| "py_str (PInt n) = str_int n"

text \<open>\<^verbatim>\<open>str.isspace\<close> on the code points below 256, and \<^verbatim>\<open>str.strip()\<close>, which removes the
  white space at both ends.\<close>

definition isspace :: "char \<Rightarrow> bool" where
  "isspace c = ((of_char c :: nat) \<in> {9, 10, 11, 12, 13, 28, 29, 30, 31, 32, 133, 160})"

definition strip :: "string \<Rightarrow> string" where
  "strip s = rev (dropWhile isspace (rev (dropWhile isspace s)))"

text \<open>\<^verbatim>\<open>sep.join(parts)\<close> on strings.\<close>

fun join :: "string \<Rightarrow> string list \<Rightarrow> string" where
  "join sep [] = []"
| "join sep [x] = x"
| "join sep (x # y # ys) = x @ sep @ join sep (y # ys)"

section \<open>The element tree of the mapper\<close>

text \<open>An \<^verbatim>\<open>xml.etree.ElementTree.Element\<close>: tag, attributes, text and children. The text is
  whatever the mapper assigned: \<^verbatim>\<open>None\<close> for an element that only has children.\<close>

datatype element =
  Element (tag: string) (attrib: "(string \<times> string) list") (etext: pyval) (children: "element list")

definition leaf :: "string \<Rightarrow> pyval \<Rightarrow> element" where
  "leaf t v = Element t [] v []"

text \<open>\<^verbatim>\<open>ET.SubElement(parent, ...)\<close> appends the new element after the children the parent has.\<close>

definition append_child :: "element \<Rightarrow> element \<Rightarrow> element" where
  "append_child parent c = Element (tag parent) (attrib parent) (etext parent) (children parent @ [c])"



text \<open>Lines 23 and 24 of the mapper: the two name parts, those that are true kept, joined with
  one space and stripped. \<^verbatim>\<open>str.join\<close> raises a \<^verbatim>\<open>TypeError\<close> on a part that is not a string.\<close>

definition contact_name_str :: "customer_dict \<Rightarrow> error + string" where
  "contact_name_str d =
     (let contact_name_parts =
            [get_default d ''First Name'' (PStr []), get_default d ''Last Name'' (PStr [])];
          kept = filter truthy contact_name_parts
      in if list_all is_str kept then Inr (strip (join '' '' (map str_of kept)))
         else Inl TypeError)"

text \<open>Lines 12 to 58: the \<^verbatim>\<open>Customer\<close> element of one record.\<close>

definition full_address_element :: "customer_dict \<Rightarrow> element" where
  "full_address_element d =
     Element ''FullAddress'' [] PNone
       [leaf ''Address'' (PStr ''N/A''),
        leaf ''City'' (get_default d ''City'' (PStr ''N/A'')),
        leaf ''Region'' (PStr ''N/A''),
        leaf ''PostalCode'' (PStr (py_str (PInt 0))),
        leaf ''Country'' (get_default d ''Country'' (PStr ''N/A''))]"

definition customer_element :: "customer_dict \<Rightarrow> error + element" where
  "customer_element d =
     (case contact_name_str d of
        Inl e \<Rightarrow> Inl e
      | Inr contact_name_str' \<Rightarrow>
          Inr (Element ''Customer''
                (if truthy (get d ''Customer Id'')
                 then [(''CustomerID'', py_str (get d ''Customer Id''))] else [])
                PNone
                ([leaf ''CompanyName'' (get_default d ''Company'' (PStr ''N/A'')),
                  leaf ''ContactName''
                    (PStr (if contact_name_str' \<noteq> [] then contact_name_str' else ''N/A'')),
                  leaf ''ContactTitle'' (PStr ''N/A''),
                  leaf ''Phone'' (get_default d ''Phone 1'' (PStr ''N/A''))]
                 @ (if truthy (get d ''Phone 2'') then [leaf ''Fax'' (get d ''Phone 2'')] else [])
                 @ [full_address_element d])))"

text \<open>Lines 9 to 58: the loop appends one \<^verbatim>\<open>Customer\<close> to the root for each record, in the
  order of the input; an exception in a record ends the call.\<close>

fun add_customers :: "element \<Rightarrow> customer_dict list \<Rightarrow> error + element" where
  "add_customers root_element [] = Inr root_element"
| "add_customers root_element (d # ds) =
     (case customer_element d of
        Inl e \<Rightarrow> Inl e
      | Inr customer \<Rightarrow> add_customers (append_child root_element customer) ds)"

definition root_element_of :: "customer_dict list \<Rightarrow> error + element" where
  "root_element_of customers_data = add_customers (Element ''Customers'' [] PNone []) customers_data"

section \<open>Serializing the tree: \<^verbatim>\<open>ET.tostring\<close>\<close>

text \<open>\<^verbatim>\<open>str.replace\<close> of one character by a string, and the escaping functions of
  \<^verbatim>\<open>xml.etree.ElementTree\<close>: \<^verbatim>\<open>_escape_cdata\<close> for text and \<^verbatim>\<open>_escape_attrib\<close> for attribute
  values (CPython 3.9 and later), each a chain of \<^verbatim>\<open>replace\<close> calls with the ampersand first.\<close>

definition replace :: "char \<Rightarrow> string \<Rightarrow> string \<Rightarrow> string" where
  "replace c new s = concat (map (\<lambda>x. if x = c then new else [x]) s)"

definition escape_cdata :: "string \<Rightarrow> string" where
  "escape_cdata text =
     replace (CHR ''>'') ''&gt;'' (replace (CHR ''<'') ''&lt;'' (replace (CHR ''&'') ''&amp;'' text))"

definition escape_attrib :: "string \<Rightarrow> string" where
  "escape_attrib text =
     replace (CHR 0x09) ''&#09;'' (replace (CHR 0x0A) ''&#10;'' (replace (CHR 0x0D) ''&#13;''
       (replace (CHR 0x22) ''&quot;''
         (replace (CHR ''>'') ''&gt;'' (replace (CHR ''<'') ''&lt;'' (replace (CHR ''&'') ''&amp;'' text))))))"

definition write_attrib :: "string \<times> string \<Rightarrow> string" where
  "write_attrib kv = '' '' @ fst kv @ ''='' @ [CHR 0x22] @ escape_attrib (snd kv) @ [CHR 0x22]"

text \<open>\<^verbatim>\<open>_serialize_xml\<close> with \<^verbatim>\<open>short_empty_elements=True\<close>: an element whose text is false and
  that has no children is written \<^verbatim>\<open><tag />\<close>; a text that is true is escaped, which raises a
  \<^verbatim>\<open>TypeError\<close> when it is not a string. With \<^verbatim>\<open>encoding='unicode'\<close> no declaration is written.\<close>

fun serialize_xml :: "element \<Rightarrow> error + string"
  and serialize_all :: "element list \<Rightarrow> error + string" where
  "serialize_xml (Element tg attrs txt elems) =
     (if truthy txt \<or> elems \<noteq> [] then
        (if truthy txt \<and> \<not> is_str txt then Inl TypeError
         else case serialize_all elems of
                Inl e \<Rightarrow> Inl e
              | Inr body \<Rightarrow>
                  Inr (''<'' @ tg @ concat (map write_attrib attrs) @ ''>''
                       @ (if truthy txt then escape_cdata (str_of txt) else [])
                       @ body @ ''</'' @ tg @ ''>''))
      else Inr (''<'' @ tg @ concat (map write_attrib attrs) @ '' />''))"
| "serialize_all [] = Inr []"
| "serialize_all (e # es) =
     (case serialize_xml e of
        Inl err \<Rightarrow> Inl err
      | Inr s \<Rightarrow> (case serialize_all es of Inl err \<Rightarrow> Inl err | Inr r \<Rightarrow> Inr (s @ r)))"

definition tostring :: "element \<Rightarrow> error + string" where
  "tostring root_element = serialize_xml root_element"


section \<open>Parsing: \<^verbatim>\<open>minidom.parseString\<close>\<close>

text \<open>
  \<^verbatim>\<open>minidom.parseString\<close> runs the Expat parser, whose events a builder turns into a DOM tree.
  The model covers the documents that the two serializers of this program write: an optional
  XML declaration, elements with double-quoted attributes, character data, the predefined
  entities and the character references for tab, line feed and carriage return. Comments,
  processing instructions, CDATA sections and document types are not modelled.
\<close>

datatype event = StartElement string "(string \<times> string) list" | EndElement string | CharacterData string

datatype node =
  ElementNode (tagName: string) (attributes: "(string \<times> string) list") (childNodes: "node list")
| TextNode (data: string)

text \<open>The characters a document may contain (the production \<^verbatim>\<open>Char\<close> of XML 1.0, below 256),
  white space, and the ASCII name characters.\<close>

definition xml_char :: "char \<Rightarrow> bool" where
  "xml_char c = ((of_char c :: nat) \<in> {9, 10, 13} \<or> 32 \<le> (of_char c :: nat))"

definition xml_space :: "char \<Rightarrow> bool" where
  "xml_space c = (c \<in> {CHR 0x20, CHR 0x09, CHR 0x0D, CHR 0x0A})"

definition is_name_start :: "char \<Rightarrow> bool" where
  "is_name_start c =
     (c = CHR '':'' \<or> c = CHR ''_'' \<or> (65 \<le> (of_char c :: nat) \<and> (of_char c :: nat) \<le> 90)
      \<or> (97 \<le> (of_char c :: nat) \<and> (of_char c :: nat) \<le> 122))"

definition is_name_char :: "char \<Rightarrow> bool" where
  "is_name_char c =
     (is_name_start c \<or> c = CHR ''-'' \<or> c = CHR ''.''
      \<or> (48 \<le> (of_char c :: nat) \<and> (of_char c :: nat) \<le> 57))"

definition valid_name :: "string \<Rightarrow> bool" where
  "valid_name n = (case n of [] \<Rightarrow> False | c # cs \<Rightarrow> is_name_start c \<and> list_all is_name_char cs)"

text \<open>End-of-line handling of XML 1.0 (section 2.11): a carriage return followed by a line feed,
  and a carriage return alone, reach the application as one line feed. The parser does this to
  its input before anything else; here it is done on each piece of character data and each
  attribute value, which is the same since no markup character is a line end.\<close>

fun normalize_eol :: "string \<Rightarrow> string" where
  "normalize_eol [] = []"
| "normalize_eol [c] = (if c = CHR 0x0D then [CHR 0x0A] else [c])"
| "normalize_eol (c # d # ds) =
     (if c = CHR 0x0D \<and> d = CHR 0x0A then CHR 0x0A # normalize_eol ds
      else if c = CHR 0x0D then CHR 0x0A # normalize_eol (d # ds)
      else c # normalize_eol (d # ds))"

text \<open>Replacing the references of a piece of text by their characters; \<^verbatim>\<open>None\<close> when an
  ampersand does not start one of the references modelled.\<close>

definition starts_with :: "string \<Rightarrow> string \<Rightarrow> bool" where
  "starts_with p s = (take (length p) s = p)"

fun unescape :: "string \<Rightarrow> string option" where
  "unescape [] = Some []"
| "unescape (c # cs) =
     (if c \<noteq> CHR ''&'' then map_option ((#) c) (unescape cs)
      else if starts_with ''amp;'' cs then map_option ((#) (CHR ''&'')) (unescape (drop 4 cs))
      else if starts_with ''lt;'' cs then map_option ((#) (CHR ''<'')) (unescape (drop 3 cs))
      else if starts_with ''gt;'' cs then map_option ((#) (CHR ''>'')) (unescape (drop 3 cs))
      else if starts_with ''quot;'' cs then map_option ((#) (CHR 0x22)) (unescape (drop 5 cs))
      else if starts_with ''apos;'' cs then map_option ((#) (CHR 0x27)) (unescape (drop 5 cs))
      else if starts_with ''#09;'' cs then map_option ((#) (CHR 0x09)) (unescape (drop 4 cs))
      else if starts_with ''#10;'' cs then map_option ((#) (CHR 0x0A)) (unescape (drop 4 cs))
      else if starts_with ''#13;'' cs then map_option ((#) (CHR 0x0D)) (unescape (drop 4 cs))
      else None)"

text \<open>Attribute-value normalization (section 3.3.3): a literal tab or line end becomes a space,
  a character reference stays what it is. A \<^verbatim>\<open><\<close> in an attribute value is not well-formed.\<close>

definition attr_space :: "char \<Rightarrow> char" where
  "attr_space c = (if c \<in> {CHR 0x09, CHR 0x0A, CHR 0x0D} then CHR 0x20 else c)"

definition attribute_value :: "string \<Rightarrow> string option" where
  "attribute_value raw =
     (if CHR ''<'' \<in> set raw then None else unescape (map attr_space (normalize_eol raw)))"

definition character_data :: "string \<Rightarrow> string option" where
  "character_data raw = unescape (normalize_eol raw)"

text \<open>The attributes of a start tag, up to its \<^verbatim>\<open>>\<close> or \<^verbatim>\<open>/>\<close>: the attributes, whether the
  tag is an empty-element tag, and the input after the tag.\<close>

function parse_attrs :: "string \<Rightarrow> ((string \<times> string) list \<times> bool \<times> string) option" where
  "parse_attrs s =
     (case dropWhile xml_space s of
        [] \<Rightarrow> None
      | c # r \<Rightarrow>
          if c = CHR ''>'' then Some ([], False, r)
          else if c = CHR ''/'' then
            (case r of [] \<Rightarrow> None | c2 # r2 \<Rightarrow> if c2 = CHR ''>'' then Some ([], True, r2) else None)
          else if dropWhile xml_space s = s \<or> \<not> valid_name (takeWhile is_name_char (c # r)) then None
          else
            (case dropWhile is_name_char (c # r) of
               e # q # s3 \<Rightarrow>
                 if e = CHR ''='' \<and> q = CHR 0x22 then
                   (case dropWhile (\<lambda>x. x \<noteq> CHR 0x22) s3 of
                      [] \<Rightarrow> None
                    | q' # s5 \<Rightarrow>
                        (case attribute_value (takeWhile (\<lambda>x. x \<noteq> CHR 0x22) s3) of
                           None \<Rightarrow> None
                         | Some v \<Rightarrow>
                             (case parse_attrs s5 of
                                None \<Rightarrow> None
                              | Some (as, emp, rest) \<Rightarrow>
                                  Some ((takeWhile is_name_char (c # r), v) # as, emp, rest))))
                 else None
             | _ \<Rightarrow> None))"
  by pat_completeness auto


lemma parse_attrs_chain:
  assumes "dropWhile P s = c # r" and "dropWhile Q (c # r) = e # q # s3"
    and "dropWhile R s3 = q' # s5"
  shows "length s5 < length s"
proof -
  have "length (c # r) \<le> length s"
    using length_dropWhile_le [of P s] unfolding assms(1) .
  moreover have "length (e # q # s3) \<le> length (c # r)"
    using length_dropWhile_le [of Q "c # r"] unfolding assms(2) .
  moreover have "length (q' # s5) \<le> length s3"
    using length_dropWhile_le [of R s3] unfolding assms(3) .
  ultimately show ?thesis by simp
qed

termination parse_attrs
  apply (relation "measure length")
   apply simp
  apply (simp del: dropWhile.simps)
  apply (erule parse_attrs_chain)
  apply assumption+
  done


declare parse_attrs.simps [simp del]

lemma parse_attrs_close:
  "dropWhile xml_space s = CHR ''>'' # r \<Longrightarrow> parse_attrs s = Some ([], False, r)"
  by (subst parse_attrs.simps) simp

lemma parse_attrs_empty:
  "dropWhile xml_space s = CHR ''/'' # r \<Longrightarrow>
   parse_attrs s = (case r of [] \<Rightarrow> None | c2 # r2 \<Rightarrow> if c2 = CHR ''>'' then Some ([], True, r2) else None)"
  by (subst parse_attrs.simps) simp

lemma parse_attrs_attr:
  assumes "dropWhile xml_space s = c # r" "c \<noteq> CHR ''>''" "c \<noteq> CHR ''/''"
  shows "parse_attrs s =
    (if dropWhile xml_space s = s \<or> \<not> valid_name (takeWhile is_name_char (c # r)) then None
          else
            (case dropWhile is_name_char (c # r) of
               e # q # s3 \<Rightarrow>
                 if e = CHR ''='' \<and> q = CHR 0x22 then
                   (case dropWhile (\<lambda>x. x \<noteq> CHR 0x22) s3 of
                      [] \<Rightarrow> None
                    | q' # s5 \<Rightarrow>
                        (case attribute_value (takeWhile (\<lambda>x. x \<noteq> CHR 0x22) s3) of
                           None \<Rightarrow> None
                         | Some v \<Rightarrow>
                             (case parse_attrs s5 of
                                None \<Rightarrow> None
                              | Some (as, emp, rest) \<Rightarrow>
                                  Some ((takeWhile is_name_char (c # r), v) # as, emp, rest))))
                 else None
             | _ \<Rightarrow> None))"
  using assms by (subst parse_attrs.simps) (simp del: dropWhile.simps takeWhile.simps)

lemma parse_attrs_none:
  assumes "dropWhile xml_space s = []"
  shows "parse_attrs s = None"
  by (subst parse_attrs.simps, subst assms) simp


lemma parse_attrs_attr_Some:
  assumes "dropWhile xml_space s = c # r" "c \<noteq> CHR ''>''" "c \<noteq> CHR ''/''"
    and "parse_attrs s = Some (as, emp, rest)"
  obtains s3 q' s5 v as' where
    "dropWhile is_name_char (c # r) = CHR ''='' # CHR 0x22 # s3"
    "dropWhile (\<lambda>x. x \<noteq> CHR 0x22) s3 = q' # s5"
    "attribute_value (takeWhile (\<lambda>x. x \<noteq> CHR 0x22) s3) = Some v"
    "parse_attrs s5 = Some (as', emp, rest)"
    "as = (takeWhile is_name_char (c # r), v) # as'"
    "dropWhile xml_space s \<noteq> s" "valid_name (takeWhile is_name_char (c # r))"
proof -
  from assms(4) have *: "(if dropWhile xml_space s = s \<or> \<not> valid_name (takeWhile is_name_char (c # r)) then None
          else
            (case dropWhile is_name_char (c # r) of
               e # q # s3 \<Rightarrow>
                 if e = CHR ''='' \<and> q = CHR 0x22 then
                   (case dropWhile (\<lambda>x. x \<noteq> CHR 0x22) s3 of
                      [] \<Rightarrow> None
                    | q' # s5 \<Rightarrow>
                        (case attribute_value (takeWhile (\<lambda>x. x \<noteq> CHR 0x22) s3) of
                           None \<Rightarrow> None
                         | Some v \<Rightarrow>
                             (case parse_attrs s5 of
                                None \<Rightarrow> None
                              | Some (as, emp, rest) \<Rightarrow>
                                  Some ((takeWhile is_name_char (c # r), v) # as, emp, rest))))
                 else None
             | _ \<Rightarrow> None)) = Some (as, emp, rest)"
    unfolding parse_attrs_attr [OF assms(1-3)] .
  then have ok: "dropWhile xml_space s \<noteq> s" "valid_name (takeWhile is_name_char (c # r))"
    by (auto split: if_splits simp del: dropWhile.simps takeWhile.simps)
  obtain e q s3 where nm: "dropWhile is_name_char (c # r) = e # q # s3"
    using * ok by (cases "dropWhile is_name_char (c # r)" rule: remdups_adj.cases)
      (simp_all del: dropWhile.simps takeWhile.simps)
  have eq: "e = CHR ''=''" "q = CHR 0x22"
    using * ok nm by (simp_all del: dropWhile.simps takeWhile.simps split: if_splits)
  obtain q' s5 where q: "dropWhile (\<lambda>x. x \<noteq> CHR 0x22) s3 = q' # s5"
    using * ok nm eq by (cases "dropWhile (\<lambda>x. x \<noteq> CHR 0x22) s3")
      (simp_all del: dropWhile.simps takeWhile.simps)
  obtain v where v: "attribute_value (takeWhile (\<lambda>x. x \<noteq> CHR 0x22) s3) = Some v"
    using * ok nm eq q by (cases "attribute_value (takeWhile (\<lambda>x. x \<noteq> CHR 0x22) s3)")
      (simp_all del: dropWhile.simps takeWhile.simps)
  obtain as' where rec: "parse_attrs s5 = Some (as', emp, rest)"
    and as: "as = (takeWhile is_name_char (c # r), v) # as'"
    using * ok nm eq q v by (cases "parse_attrs s5")
      (auto simp del: dropWhile.simps takeWhile.simps)
  show thesis using that [OF _ q v rec as ok] nm eq by simp
qed

lemma parse_attrs_shorter: "parse_attrs s = Some (as, emp, rest) \<Longrightarrow> length rest < length s"
proof (induction s arbitrary: as emp rest rule: parse_attrs.induct)
  case (1 s)
  show ?case
  proof (cases "dropWhile xml_space s")
    case Nil
    with "1.prems" show ?thesis by (simp add: parse_attrs_none)
  next
    case (Cons c r)
    have r: "length r < length s"
      using length_dropWhile_le [of xml_space s] unfolding Cons by simp
    consider "c = CHR ''>''" | "c = CHR ''/''" | "c \<noteq> CHR ''>''" "c \<noteq> CHR ''/''" by blast
    then show ?thesis
    proof cases
      case 1
      with "1.prems" Cons r show ?thesis by (simp add: parse_attrs_close)
    next
      case 2
      with "1.prems" Cons r show ?thesis
        by (cases r) (auto simp: parse_attrs_empty split: if_splits)
    next
      case 3
      from Cons 3 "1.prems" obtain s3 q' s5 v as' where
        nm: "dropWhile is_name_char (c # r) = CHR ''='' # CHR 0x22 # s3"
        and q: "dropWhile (\<lambda>x. x \<noteq> CHR 0x22) s3 = q' # s5"
        and v: "attribute_value (takeWhile (\<lambda>x. x \<noteq> CHR 0x22) s3) = Some v"
        and rec: "parse_attrs s5 = Some (as', emp, rest)"
        and ok: "dropWhile xml_space s \<noteq> s" "valid_name (takeWhile is_name_char (c # r))"
        by (rule parse_attrs_attr_Some)
      have "length rest < length s5"
        using "1.IH" [OF Cons 3 _ nm refl _ q v rec] ok by simp
      moreover have "length s5 < length s"
        using parse_attrs_chain [OF Cons nm q] .
      ultimately show ?thesis by simp
    qed
  qed
qed

text \<open>The events of the parser: an end tag, a start tag (an empty-element tag gives a start
  and an end event) or a run of character data up to the next \<^verbatim>\<open><\<close>.\<close>

function tokenize :: "string \<Rightarrow> event list option" where
  "tokenize [] = Some []"
| "tokenize (c # cs) =
     (if c = CHR ''<'' then
        (case cs of
           [] \<Rightarrow> None
         | d # ds \<Rightarrow>
             if d = CHR ''/'' then
               (if \<not> valid_name (takeWhile is_name_char ds) then None
                else case dropWhile xml_space (dropWhile is_name_char ds) of
                       [] \<Rightarrow> None
                     | g # r \<Rightarrow>
                         if g \<noteq> CHR ''>'' then None
                         else (case tokenize r of
                                 None \<Rightarrow> None
                               | Some es \<Rightarrow> Some (EndElement (takeWhile is_name_char ds) # es)))
             else
               (if \<not> valid_name (takeWhile is_name_char cs) then None
                else case parse_attrs (dropWhile is_name_char cs) of
                       None \<Rightarrow> None
                     | Some (as, emp, rest) \<Rightarrow>
                         if \<not> distinct (map fst as) then None
                         else (case tokenize rest of
                                 None \<Rightarrow> None
                               | Some es \<Rightarrow>
                                   Some (StartElement (takeWhile is_name_char cs) as
                                         # (if emp then [EndElement (takeWhile is_name_char cs)] else [])
                                         @ es))))
      else
        (case character_data (c # takeWhile (\<lambda>x. x \<noteq> CHR ''<'') cs) of
           None \<Rightarrow> None
         | Some t \<Rightarrow>
             (case tokenize (dropWhile (\<lambda>x. x \<noteq> CHR ''<'') cs) of
                None \<Rightarrow> None
              | Some es \<Rightarrow> Some (CharacterData t # es))))"
  by pat_completeness auto

lemma tokenize_end_shorter:
  "dropWhile P (dropWhile Q ds) = g # r \<Longrightarrow> length r < Suc (Suc (length ds))"
  using length_dropWhile_le [of P "dropWhile Q ds"] length_dropWhile_le [of Q ds] by simp

lemma tokenize_start_shorter:
  "parse_attrs (dropWhile Q cs) = Some (as, emp, rest) \<Longrightarrow> length rest < Suc (length cs)"
  using parse_attrs_shorter [of "dropWhile Q cs" as emp rest] length_dropWhile_le [of Q cs] by simp

lemma tokenize_text_shorter: "length (dropWhile P cs) < Suc (length cs)"
  using length_dropWhile_le [of P cs] by simp

termination tokenize
  apply (relation "measure length")
     apply simp
    apply (simp del: dropWhile.simps takeWhile.simps)
    apply (erule tokenize_end_shorter)
   apply (clarsimp simp del: dropWhile.simps takeWhile.simps)
   apply (drule tokenize_start_shorter)
   apply simp
  apply (simp del: dropWhile.simps takeWhile.simps add: tokenize_text_shorter)
  done

declare tokenize.simps [simp del]


text \<open>The builder keeps the open elements on a stack, each with the children it has so far; an
  end tag closes the innermost one and appends it to its parent, or to the document. White
  space is all that may stand outside the one root element.\<close>

type_synonym frame = "string \<times> (string \<times> string) list \<times> node list"

fun build :: "frame list \<Rightarrow> node list \<Rightarrow> event list \<Rightarrow> node list option" where
  "build [] doc [] = Some doc"
| "build (f # fs) doc [] = None"
| "build st doc (StartElement n a # es) =
     (if st = [] \<and> doc \<noteq> [] then None else build ((n, a, []) # st) doc es)"
| "build [] doc (EndElement n # es) = None"
| "build ((m, a, kids) # fs) doc (EndElement n # es) =
     (if n \<noteq> m then None
      else case fs of
             [] \<Rightarrow> build [] (doc @ [ElementNode m a kids]) es
           | (m', a', kids') # fs' \<Rightarrow> build ((m', a', kids' @ [ElementNode m a kids]) # fs') doc es)"
| "build [] doc (CharacterData t # es) = (if list_all xml_space t then build [] doc es else None)"
| "build ((m, a, kids) # fs) doc (CharacterData t # es) =
     build ((m, a, kids @ [TextNode t]) # fs) doc es"

text \<open>The document: every character must be a \<^verbatim>\<open>Char\<close>, a declaration may come first, and
  the events must build exactly one root element.\<close>

definition skip_declaration :: "string \<Rightarrow> string option" where
  "skip_declaration s =
     (if starts_with ''<?xml'' s then
        (case dropWhile (\<lambda>x. x \<noteq> CHR ''>'') s of
           [] \<Rightarrow> None
         | g # r \<Rightarrow> if last (takeWhile (\<lambda>x. x \<noteq> CHR ''>'') s) = CHR ''?'' then Some r else None)
      else Some s)"

definition parseString :: "string \<Rightarrow> error + node" where
  "parseString s =
     (if \<not> list_all xml_char s then Inl ExpatError
      else case skip_declaration s of
             None \<Rightarrow> Inl ExpatError
           | Some body \<Rightarrow>
               (case tokenize body of
                  None \<Rightarrow> Inl ExpatError
                | Some es \<Rightarrow>
                    (case build [] [] es of
                       Some [ElementNode n a kids] \<Rightarrow> Inr (ElementNode n a kids)
                     | _ \<Rightarrow> Inl ExpatError)))"

section \<open>Pretty printing: \<^verbatim>\<open>toprettyxml\<close>\<close>

text \<open>\<^verbatim>\<open>_write_data\<close> of \<^verbatim>\<open>xml.dom.minidom\<close> (CPython 3.9 to 3.12) escapes the ampersand, the
  angle brackets and the double quote. \<^verbatim>\<open>Element.writexml\<close> writes an element whose only child is
  a text node on one line, and every other child on a line of its own, indented.\<close>

definition write_data :: "string \<Rightarrow> string" where
  "write_data d =
     replace (CHR ''>'') ''&gt;'' (replace (CHR 0x22) ''&quot;''
       (replace (CHR ''<'') ''&lt;'' (replace (CHR ''&'') ''&amp;'' d)))"

definition write_attribute :: "string \<times> string \<Rightarrow> string" where
  "write_attribute kv = '' '' @ fst kv @ ''='' @ [CHR 0x22] @ write_data (snd kv) @ [CHR 0x22]"

fun writexml :: "string \<Rightarrow> string \<Rightarrow> string \<Rightarrow> node \<Rightarrow> string" where
  "writexml indent addindent newl (TextNode d) = write_data (indent @ d @ newl)"
| "writexml indent addindent newl (ElementNode n a kids) =
     indent @ ''<'' @ n @ concat (map write_attribute a)
     @ (case kids of
          [] \<Rightarrow> ''/>'' @ newl
        | [TextNode d] \<Rightarrow> ''>'' @ write_data d @ ''</'' @ n @ ''>'' @ newl
        | _ \<Rightarrow> ''>'' @ newl @ concat (map (writexml (indent @ addindent) addindent newl) kids)
               @ indent @ ''</'' @ n @ ''>'' @ newl)"

definition toprettyxml :: "string \<Rightarrow> node \<Rightarrow> string" where
  "toprettyxml indent document =
     ''<?xml version='' @ [CHR 0x22] @ ''1.0'' @ [CHR 0x22] @ '' ?>'' @ [CHR 0x0A]
     @ writexml [] indent [CHR 0x0A] document"

section \<open>The mapper\<close>

text \<open>Lines 61 to 63: serialize the tree, parse the string, pretty-print the document.\<close>

definition json_to_dom :: "customer_dict list \<Rightarrow> error + node" where
  "json_to_dom customers_data =
     (case root_element_of customers_data of
        Inl e \<Rightarrow> Inl e
      | Inr root_element \<Rightarrow>
          (case tostring root_element of
             Inl e \<Rightarrow> Inl e
           | Inr xml_str \<Rightarrow> parseString xml_str))"

definition json_to_xml :: "customer_dict list \<Rightarrow> error + string" where
  "json_to_xml customers_data =
     (case json_to_dom customers_data of
        Inl e \<Rightarrow> Inl e
      | Inr document \<Rightarrow> Inr (toprettyxml ''  '' document))"

section \<open>The driver: \<^verbatim>\<open>process_customers.py\<close>\<close>
















section \<open>The document of an element tree\<close>

text \<open>
  What follows describes the result of \<^verbatim>\<open>parseString(tostring(root))\<close> on the tree itself; the
  properties below prove that the serializer and the parser above produce it. Each escaping
  function works character by character:
\<close>

definition escape_cdata_char :: "char \<Rightarrow> string" where
  "escape_cdata_char c =
     (if c = CHR ''&'' then ''&amp;'' else if c = CHR ''<'' then ''&lt;''
      else if c = CHR ''>'' then ''&gt;'' else [c])"

definition escape_attrib_char :: "char \<Rightarrow> string" where
  "escape_attrib_char c =
     (if c = CHR ''&'' then ''&amp;'' else if c = CHR ''<'' then ''&lt;''
      else if c = CHR ''>'' then ''&gt;'' else if c = CHR 0x22 then ''&quot;''
      else if c = CHR 0x0D then ''&#13;'' else if c = CHR 0x0A then ''&#10;''
      else if c = CHR 0x09 then ''&#09;'' else [c])"

definition write_data_char :: "char \<Rightarrow> string" where
  "write_data_char c =
     (if c = CHR ''&'' then ''&amp;'' else if c = CHR ''<'' then ''&lt;''
      else if c = CHR 0x22 then ''&quot;'' else if c = CHR ''>'' then ''&gt;'' else [c])"

text \<open>An element tree can be written and read back when its tags and attribute names are
  names and no element has two attributes of one name.\<close>

fun wf_element :: "element \<Rightarrow> bool" where
  "wf_element (Element tg attrs txt elems) =
     (valid_name tg \<and> list_all (\<lambda>kv. valid_name (fst kv)) attrs \<and> distinct (map fst attrs)
      \<and> list_all wf_element elems)"





section \<open>The derivation rules in the words of the specification\<close>















section \<open>Properties of the element tree\<close>






section \<open>Parsing the serialized tree\<close>

subsection \<open>Escaping, character by character\<close>

lemma replace_Nil [simp]: "replace c new [] = []"
  by (simp add: replace_def)

lemma replace_Cons: "replace c new (x # xs) = (if x = c then new else [x]) @ replace c new xs"
  by (simp add: replace_def)

lemma replace_append: "replace c new (xs @ ys) = replace c new xs @ replace c new ys"
  by (simp add: replace_def)

lemma escape_cdata_Nil [simp]: "escape_cdata [] = []"
  by (simp add: escape_cdata_def)

lemma escape_cdata_Cons [simp]: "escape_cdata (c # s) = escape_cdata_char c @ escape_cdata s"
  by (simp add: escape_cdata_def escape_cdata_char_def replace_Cons replace_append)

lemma escape_attrib_Nil [simp]: "escape_attrib [] = []"
  by (simp add: escape_attrib_def)

lemma escape_attrib_Cons [simp]: "escape_attrib (c # s) = escape_attrib_char c @ escape_attrib s"
  by (simp add: escape_attrib_def escape_attrib_char_def replace_Cons replace_append)

lemma write_data_Nil [simp]: "write_data [] = []"
  by (simp add: write_data_def)

lemma write_data_Cons [simp]: "write_data (c # s) = write_data_char c @ write_data s"
  by (simp add: write_data_def write_data_char_def replace_Cons replace_append)

subsection \<open>Decoding what was escaped\<close>

lemma unescape_other [simp]: "c \<noteq> CHR ''&'' \<Longrightarrow> unescape (c # r) = map_option ((#) c) (unescape r)"
  by simp

lemma unescape_amp [simp]: "unescape (''&amp;'' @ r) = map_option ((#) (CHR ''&'')) (unescape r)"
  by (simp add: starts_with_def)

lemma unescape_lt [simp]: "unescape (''&lt;'' @ r) = map_option ((#) (CHR ''<'')) (unescape r)"
  by (simp add: starts_with_def)

lemma unescape_gt [simp]: "unescape (''&gt;'' @ r) = map_option ((#) (CHR ''>'')) (unescape r)"
  by (simp add: starts_with_def)

lemma unescape_quot [simp]: "unescape (''&quot;'' @ r) = map_option ((#) (CHR 0x22)) (unescape r)"
  by (simp add: starts_with_def)




declare unescape.simps(2) [simp del]



lemma unescape_write_data_char:
  "unescape (write_data_char c @ r) = map_option ((#) c) (unescape r)"
  using unescape_amp [of r] unescape_lt [of r] unescape_gt [of r] unescape_quot [of r]
  by (simp add: write_data_char_def del: unescape_amp unescape_lt unescape_gt unescape_quot)



lemma unescape_write_data: "unescape (write_data s) = Some s"
  by (induction s) (simp_all add: unescape_write_data_char)

subsection \<open>Line ends\<close>




lemma normalize_eol_cr:
  "normalize_eol (CHR 0x0D # r) =
     CHR 0x0A # normalize_eol (case r of [] \<Rightarrow> [] | d # ds \<Rightarrow> if d = CHR 0x0A then ds else r)"
  by (cases r) simp_all







subsection \<open>Names\<close>


lemma not_name_char [simp]:
  "\<not> is_name_char (CHR '' '')" "\<not> is_name_char (CHR ''>'')" "\<not> is_name_char (CHR ''='')"
  "\<not> is_name_char (CHR ''/'')" "\<not> is_name_char (CHR ''<'')"
  by (simp_all add: is_name_char_def is_name_start_def)





subsection \<open>The attributes of a start tag\<close>





subsection \<open>The events of a serialized tree\<close>









subsection \<open>Building the document\<close>




subsection \<open>Parsing what the serializer wrote\<close>



subsection \<open>Characters\<close>



lemma xml_char_literals [simp]:
  "xml_char (CHR ''<'')" "xml_char (CHR ''>'')" "xml_char (CHR ''/'')" "xml_char (CHR '' '')"
  "xml_char (CHR ''='')" "xml_char (CHR 0x22)"
  by (simp_all add: xml_char_def)






subsection \<open>The tree of the mapper\<close>



lemma valid_names [simp]:
  "valid_name ''Customers''" "valid_name ''Customer''" "valid_name ''CustomerID''"
  "valid_name ''CompanyName''" "valid_name ''ContactName''" "valid_name ''ContactTitle''"
  "valid_name ''Phone''" "valid_name ''Fax''" "valid_name ''FullAddress''" "valid_name ''Address''"
  "valid_name ''City''" "valid_name ''Region''" "valid_name ''PostalCode''" "valid_name ''Country''"
  by (simp_all add: valid_name_def is_name_start_def is_name_char_def)

lemma wf_leaf [simp]: "wf_element (leaf t v) = valid_name t"
  by (simp add: leaf_def)





subsection \<open>Records that the mapper accepts\<close>










section \<open>The loop of the driver\<close>




section \<open>The claims about the element tree\<close>










section \<open>The claims about the document\<close>






text \<open>
  Claim C8. For the empty sequence \<^verbatim>\<open>json_to_xml\<close> returns the XML declaration followed by the
  empty element \<^verbatim>\<open>Customers\<close>; the string is well-formed, and parsing it gives a root
  \<^verbatim>\<open>Customers\<close> without children.
\<close>

theorem empty_input:
  "json_to_xml [] =
     Inr (''<?xml version='' @ [CHR 0x22] @ ''1.0'' @ [CHR 0x22] @ '' ?>'' @ [CHR 0x0A]
          @ ''<Customers/>'' @ [CHR 0x0A])
   \<and> parseString (''<?xml version='' @ [CHR 0x22] @ ''1.0'' @ [CHR 0x22] @ '' ?>'' @ [CHR 0x0A]
          @ ''<Customers/>'' @ [CHR 0x0A])
     = Inr (ElementNode ''Customers'' [] [])"
  by code_simp

section \<open>The claims about the driver\<close>






end
